theory Spec2Isabelle
  imports Main
begin

section \<open>Error values\<close>

text \<open>
  A value of Go's interface type \<open>error\<close> is either the nil interface or a value of
  one of the package's four node types (\<open>*fundamental\<close>, \<open>*withStack\<close>,
  \<open>*withMessage\<close>, \<open>*withDetails\<close>, errors.go) or a value of a foreign type.
  The struct fields are the constructor arguments, in the order of the source; a
  \<open>withStack\<close> embeds a \<open>withMessage\<close> (cause, msg) and adds the stack.

  A foreign error is known to the package only through its methods: its \<open>Error()\<close>
  text, and the results of the optional methods \<open>Cause() error\<close> and
  \<open>Unwrap() error\<close> (\<open>None\<close> when the type does not have the method). Foreign
  types are taken to implement neither \<open>fmt.Formatter\<close> nor \<open>Liner\<close>, and their
  methods do not panic. Values are finite trees, so a chain has no cycle.

  A stack is the slice of program counters that \<open>callers\<close> recorded; \<open>'a\<close> is the
  type of the opaque values behind \<open>any\<close>. A nil slice and an empty slice are both
  the empty list.
\<close>

type_synonym stack = "nat list"

type_synonym rune = int

datatype 'a error =
    nil
  | fundamental string stack
  | withStack "'a error" string stack
  | withMessage "'a error" string
  | withDetails "'a error" "'a list"
  | external string "'a error option" "'a error option"

text \<open>
  What a method call does: it returns a value, it panics (a nil dereference), or the
  dynamic type has no such method (the type assertion for the interface fails).
\<close>

datatype 'r outcome = Returns 'r | Panics | NoMethod

section \<open>Render configuration (options.go)\<close>

record Config =
  FuncSep :: string
  StackSep :: string
  MsgSep :: string

type_synonym Option = "Config \<Rightarrow> Config"

definition globalOptions :: Config where
  "globalOptions = \<lparr>FuncSep = [CHR 0x09], StackSep = [CHR 0x0A], MsgSep = '' : ''\<rparr>"

definition WithFuncSep :: "string \<Rightarrow> Option" where
  "WithFuncSep sep = (\<lambda>c. c\<lparr>FuncSep := sep\<rparr>)"

definition WithStackSep :: "string \<Rightarrow> Option" where
  "WithStackSep sep = (\<lambda>c. c\<lparr>StackSep := sep\<rparr>)"

definition WithMsgSep :: "string \<Rightarrow> Option" where
  "WithMsgSep sep = (\<lambda>c. c\<lparr>MsgSep := sep\<rparr>)"

text \<open>\<open>SetOptions\<close> applies the options in order to the shared configuration, which
  is passed in and returned.\<close>

definition SetOptions :: "Option list \<Rightarrow> Config \<Rightarrow> Config" where
  "SetOptions options opts = fold (\<lambda>option c. option c) options opts"

section \<open>Constructors (custom.go, errors.go)\<close>

record ApiConfig =
  CallerSkip :: int

record errorsApi =
  cfg :: ApiConfig

definition NewErrorsApi :: "ApiConfig \<Rightarrow> errorsApi" where
  "NewErrorsApi c = \<lparr>cfg = c\<rparr>"

definition globalErrorsApi :: errorsApi where
  "globalErrorsApi = NewErrorsApi \<lparr>CallerSkip = 2\<rparr>"

text \<open>
  \<open>callers(skip)\<close> reads the run-time call stack, and \<open>fmt.Sprintf\<close> is the host's
  formatter: both are parameters. \<open>callers\<close> is the capture routine as it behaves
  at the place of the call, a function of the skip count.
\<close>

definition errorsApi_New :: "errorsApi \<Rightarrow> (int \<Rightarrow> stack) \<Rightarrow> string \<Rightarrow> 'a error" where
  "errorsApi_New e callers message = fundamental message (callers (CallerSkip (cfg e)))"

definition errorsApi_Errorf ::
  "errorsApi \<Rightarrow> (string \<Rightarrow> 'a list \<Rightarrow> string) \<Rightarrow> (int \<Rightarrow> stack) \<Rightarrow> string \<Rightarrow> 'a list \<Rightarrow> 'a error" where
  "errorsApi_Errorf e Sprintf callers format args =
     fundamental (Sprintf format args) (callers (CallerSkip (cfg e)))"

definition errorsApi_WithStack :: "errorsApi \<Rightarrow> (int \<Rightarrow> stack) \<Rightarrow> 'a error \<Rightarrow> 'a error" where
  "errorsApi_WithStack e callers err =
     (if err = nil then nil
      else withStack err [] (callers (CallerSkip (cfg e))))"

definition errorsApi_Wrap ::
  "errorsApi \<Rightarrow> (int \<Rightarrow> stack) \<Rightarrow> 'a error \<Rightarrow> string \<Rightarrow> 'a error" where
  "errorsApi_Wrap e callers err message =
     (if err = nil then nil
      else withStack err message (callers (CallerSkip (cfg e))))"

definition errorsApi_Wrapf ::
  "errorsApi \<Rightarrow> (string \<Rightarrow> 'a list \<Rightarrow> string) \<Rightarrow> (int \<Rightarrow> stack) \<Rightarrow> 'a error \<Rightarrow> string \<Rightarrow> 'a list
     \<Rightarrow> 'a error" where
  "errorsApi_Wrapf e Sprintf callers err format args =
     (if err = nil then nil
      else withStack err (Sprintf format args) (callers (CallerSkip (cfg e))))"

definition errorsApi_WithMessage :: "errorsApi \<Rightarrow> 'a error \<Rightarrow> string \<Rightarrow> 'a error" where
  "errorsApi_WithMessage e err message =
     (if err = nil then nil
      else withMessage err message)"

definition errorsApi_WithMessagef ::
  "errorsApi \<Rightarrow> (string \<Rightarrow> 'a list \<Rightarrow> string) \<Rightarrow> 'a error \<Rightarrow> string \<Rightarrow> 'a list \<Rightarrow> 'a error" where
  "errorsApi_WithMessagef e Sprintf err format args =
     (if err = nil then nil
      else withMessage err (Sprintf format args))"

definition errorsApi_WithDetails :: "errorsApi \<Rightarrow> 'a error \<Rightarrow> 'a list \<Rightarrow> 'a error" where
  "errorsApi_WithDetails e err details =
     (if err = nil then nil
      else withDetails err details)"

text \<open>\<open>err.(*withDetails)\<close> succeeds on a \<open>withDetails\<close> value only.\<close>

definition errorsApi_Details :: "errorsApi \<Rightarrow> 'a error \<Rightarrow> 'a list \<times> bool" where
  "errorsApi_Details e err =
     (case err of withDetails cause details \<Rightarrow> (details, True) | _ \<Rightarrow> ([], False))"

text \<open>The package-level functions forward to the shared instance.\<close>

definition New :: "(int \<Rightarrow> stack) \<Rightarrow> string \<Rightarrow> 'a error" where
  "New callers message = errorsApi_New globalErrorsApi callers message"

definition Errorf ::
  "(string \<Rightarrow> 'a list \<Rightarrow> string) \<Rightarrow> (int \<Rightarrow> stack) \<Rightarrow> string \<Rightarrow> 'a list \<Rightarrow> 'a error" where
  "Errorf Sprintf callers format args = errorsApi_Errorf globalErrorsApi Sprintf callers format args"

definition WithStack :: "(int \<Rightarrow> stack) \<Rightarrow> 'a error \<Rightarrow> 'a error" where
  "WithStack callers err = errorsApi_WithStack globalErrorsApi callers err"

definition Wrap :: "(int \<Rightarrow> stack) \<Rightarrow> 'a error \<Rightarrow> string \<Rightarrow> 'a error" where
  "Wrap callers err message = errorsApi_Wrap globalErrorsApi callers err message"

definition Wrapf ::
  "(string \<Rightarrow> 'a list \<Rightarrow> string) \<Rightarrow> (int \<Rightarrow> stack) \<Rightarrow> 'a error \<Rightarrow> string \<Rightarrow> 'a list \<Rightarrow> 'a error" where
  "Wrapf Sprintf callers err format args =
     errorsApi_Wrapf globalErrorsApi Sprintf callers err format args"

definition WithMessage :: "'a error \<Rightarrow> string \<Rightarrow> 'a error" where
  "WithMessage err message = errorsApi_WithMessage globalErrorsApi err message"

definition WithMessagef ::
  "(string \<Rightarrow> 'a list \<Rightarrow> string) \<Rightarrow> 'a error \<Rightarrow> string \<Rightarrow> 'a list \<Rightarrow> 'a error" where
  "WithMessagef Sprintf err format args =
     errorsApi_WithMessagef globalErrorsApi Sprintf err format args"

definition WithDetails :: "'a error \<Rightarrow> 'a list \<Rightarrow> 'a error" where
  "WithDetails err details = errorsApi_WithDetails globalErrorsApi err details"

definition Details :: "'a error \<Rightarrow> 'a list \<times> bool" where
  "Details err = errorsApi_Details globalErrorsApi err"

section \<open>Short text\<close>

text \<open>
  \<open>Error()\<close> of each type. \<open>*withStack\<close> has the method of its embedded
  \<open>withMessage\<close>. Calling it on the nil interface panics, and so does
  \<open>withDetails.Error\<close> on a nil cause, which it does not test.
\<close>

fun Error :: "'a error \<Rightarrow> string outcome" where
  "Error nil = Panics"
| "Error (fundamental msg st) = Returns msg"
| "Error (withStack cause msg st) =
     (if cause = nil then Returns msg
      else if msg = [] then Error cause
      else (case Error cause of
              Returns t \<Rightarrow> Returns (msg @ '': '' @ t)
            | Panics \<Rightarrow> Panics
            | NoMethod \<Rightarrow> NoMethod))"
| "Error (withMessage cause msg) =
     (if cause = nil then Returns msg
      else if msg = [] then Error cause
      else (case Error cause of
              Returns t \<Rightarrow> Returns (msg @ '': '' @ t)
            | Panics \<Rightarrow> Panics
            | NoMethod \<Rightarrow> NoMethod))"
| "Error (withDetails cause details) = Error cause"
| "Error (external text c u) = Returns text"

section \<open>Cause\<close>

text \<open>\<open>err.(causer)\<close> followed by \<open>cause.Cause()\<close>: \<open>None\<close> when the assertion
  fails.\<close>

fun causer :: "'a error \<Rightarrow> 'a error option" where
  "causer nil = None"
| "causer (fundamental msg st) = None"
| "causer (withStack cause msg st) = Some cause"
| "causer (withMessage cause msg) = Some cause"
| "causer (withDetails cause details) = Some cause"
| "causer (external text c u) = c"

function Cause :: "'a error \<Rightarrow> 'a error" where
  "Cause err =
     (if err = nil then err
      else (case causer err of None \<Rightarrow> err | Some c \<Rightarrow> Cause c))"
  by pat_completeness auto
termination
  by (relation "measure size") (auto elim!: causer.elims)

section \<open>Format\<close>

text \<open>
  \<open>Format(s, verb)\<close> of each node type; the result is the text written to \<open>s\<close>,
  and \<open>plusFlag\<close> is \<open>s.Flag('+')\<close>. A \<open>switch\<close> without a matching case writes
  nothing. The rendering of a stack under \<open>%+v\<close> (\<open>stack.Format\<close>, not part of
  these files) is the parameter \<open>stack_Format\<close>; \<open>fmt.Fprintf(s, sep)\<close> formats
  the separator as a format string without arguments, \<open>Sprintf sep []\<close>.
  \<open>fmt.Fprintf(s, "%q", text)\<close>, the host's quoting of a string as a Go string
  literal, is the parameter \<open>Quote\<close>.

  \<open>Fprintf_plus_v\<close> is \<open>fmt.Fprintf(s, "%+v", err)\<close>: the host writes
  \<open><nil>\<close> for the nil interface, calls \<open>Format\<close> with the verb \<open>v\<close> and the
  flag \<open>+\<close> on a node, recovering from a panic of the method, and writes the
  \<open>Error()\<close> text of a foreign error.
\<close>

fun Format ::
  "Config \<Rightarrow> (string \<Rightarrow> 'a list \<Rightarrow> string) \<Rightarrow> (string \<Rightarrow> string) \<Rightarrow> (Config \<Rightarrow> stack \<Rightarrow> string)
     \<Rightarrow> 'a error \<Rightarrow> bool \<Rightarrow> rune \<Rightarrow> string outcome"
and Fprintf_plus_v ::
  "Config \<Rightarrow> (string \<Rightarrow> 'a list \<Rightarrow> string) \<Rightarrow> (string \<Rightarrow> string) \<Rightarrow> (Config \<Rightarrow> stack \<Rightarrow> string)
     \<Rightarrow> 'a error \<Rightarrow> string"
where
  "Format opts Sprintf Quote stack_Format nil plusFlag verb = Panics"
| "Format opts Sprintf Quote stack_Format (fundamental msg st) plusFlag verb =
     (if verb = of_char CHR ''v'' then
        (if plusFlag then
           Returns ((if msg \<noteq> [] then msg @ MsgSep opts else []) @ stack_Format opts st)
         else Returns msg)
      else if verb = of_char CHR ''s'' then Returns msg
      else if verb = of_char CHR ''q'' then Returns (Quote msg)
      else Returns [])"
| "Format opts Sprintf Quote stack_Format (withStack cause msg st) plusFlag verb =
     (if verb = of_char CHR ''v'' then
        (if plusFlag then
           Returns ((if cause \<noteq> nil
                     then Fprintf_plus_v opts Sprintf Quote stack_Format cause @ Sprintf (StackSep opts) []
                     else [])
                    @ (if msg \<noteq> [] then msg @ Sprintf (StackSep opts) [] else [])
                    @ stack_Format opts st)
         else Error (withStack cause msg st))
      else if verb = of_char CHR ''s'' then Error (withStack cause msg st)
      else if verb = of_char CHR ''q'' then
        (case Error (withStack cause msg st) of
           Returns t \<Rightarrow> Returns (Quote t)
         | Panics \<Rightarrow> Panics
         | NoMethod \<Rightarrow> NoMethod)
      else Returns [])"
| "Format opts Sprintf Quote stack_Format (withMessage cause msg) plusFlag verb =
     (if verb = of_char CHR ''v'' then
        (if plusFlag then
           Returns ((if cause \<noteq> nil
                     then Fprintf_plus_v opts Sprintf Quote stack_Format cause @ Sprintf (StackSep opts) []
                     else [])
                    @ msg)
         else Error (withMessage cause msg))
      else if verb = of_char CHR ''s'' \<or> verb = of_char CHR ''q'' then Error (withMessage cause msg)
      else Returns [])"
| "Format opts Sprintf Quote stack_Format (withDetails cause details) plusFlag verb =
     (if verb = of_char CHR ''v'' then
        (if plusFlag then
           Returns (Fprintf_plus_v opts Sprintf Quote stack_Format cause @ Sprintf (StackSep opts) [])
         else Error (withDetails cause details))
      else if verb = of_char CHR ''s'' \<or> verb = of_char CHR ''q'' then Error (withDetails cause details)
      else Returns [])"
| "Format opts Sprintf Quote stack_Format (external text c u) plusFlag verb = NoMethod"
| "Fprintf_plus_v opts Sprintf Quote stack_Format nil = ''<nil>''"
| "Fprintf_plus_v opts Sprintf Quote stack_Format (external text c u) = text"
| "Fprintf_plus_v opts Sprintf Quote stack_Format err =
     (case Format opts Sprintf Quote stack_Format err True (of_char CHR ''v'') of
        Returns t \<Rightarrow> t
      | Panics \<Rightarrow>
          ''%!v(PANIC=Format method: runtime error: invalid memory address or nil pointer dereference)''
      | NoMethod \<Rightarrow> [])"

section \<open>Lines (lines.go)\<close>

text \<open>
  \<open>ErrorLine(stack)\<close> of each node type; \<open>NoMethod\<close> where the value is not a
  \<open>Liner\<close>. \<open>fmt.Sprintf("%+v", f.stack)\<close> is the stack's own \<open>Format\<close>,
  the parameter \<open>stack_Format\<close>.
\<close>

fun ErrorLine :: "Config \<Rightarrow> (Config \<Rightarrow> stack \<Rightarrow> string) \<Rightarrow> 'a error \<Rightarrow> bool \<Rightarrow> string outcome" where
  "ErrorLine opts stack_Format nil stack = NoMethod"
| "ErrorLine opts stack_Format (fundamental msg st) stack =
     Returns ((if msg \<noteq> [] then msg else [])
              @ (if msg \<noteq> [] \<and> stack then MsgSep opts else [])
              @ (if stack then stack_Format opts st else []))"
| "ErrorLine opts stack_Format (withStack cause msg st) stack =
     (if \<not> stack then Returns msg
      else Returns ((if msg \<noteq> [] then msg @ MsgSep opts else []) @ stack_Format opts st))"
| "ErrorLine opts stack_Format (withMessage cause msg) stack = Returns msg"
| "ErrorLine opts stack_Format (withDetails cause details) stack = Returns []"
| "ErrorLine opts stack_Format (external text c u) stack = NoMethod"

text \<open>The \<open>Unwrap()\<close> method of a value, \<open>None\<close> when its type has none.\<close>

fun unwrapper :: "'a error \<Rightarrow> 'a error option" where
  "unwrapper nil = None"
| "unwrapper (fundamental msg st) = None"
| "unwrapper (withStack cause msg st) = Some cause"
| "unwrapper (withMessage cause msg) = Some cause"
| "unwrapper (withDetails cause details) = Some cause"
| "unwrapper (external text c u) = u"

text \<open>
  Modelled from the spec: the package function \<open>Unwrap\<close>, which \<open>Lines\<close> calls and
  whose file is not among the sources. It is the generic unwrap step of the chain
  walk: the result of the value's \<open>Unwrap()\<close> method if it has one, and nil
  otherwise, so that the walk ends at a value without the method.
\<close>

definition Unwrap :: "'a error \<Rightarrow> 'a error" where
  "Unwrap err = (case unwrapper err of None \<Rightarrow> nil | Some u \<Rightarrow> u)"

definition chain_measure :: "'a error \<Rightarrow> nat" where
  "chain_measure err = (if err = nil then 0 else Suc (size err))"

text \<open>The loop of \<open>Lines\<close>, with the slice \<open>errors\<close> built so far. The type switch
  takes \<open>ErrorLine\<close> of a \<open>Liner\<close> and \<open>Error()\<close> of any other value.\<close>

function Lines_loop ::
  "Config \<Rightarrow> (Config \<Rightarrow> stack \<Rightarrow> string) \<Rightarrow> 'a error \<Rightarrow> bool \<Rightarrow> string list \<Rightarrow> string list outcome"
where
  "Lines_loop opts stack_Format err stack errors =
     (if err = nil then Returns errors
      else
        (case (case ErrorLine opts stack_Format err stack of
                 Returns l \<Rightarrow> Returns l
               | Panics \<Rightarrow> Panics
               | NoMethod \<Rightarrow> Error err) of
           Returns line \<Rightarrow>
             Lines_loop opts stack_Format (Unwrap err) stack
               (if length line > 0 then errors @ [line] else errors)
         | Panics \<Rightarrow> Panics
         | NoMethod \<Rightarrow> NoMethod))"
  by pat_completeness auto
termination
  by (relation "measure (\<lambda>(opts, stack_Format, err, stack, errors). chain_measure err)")
     (auto simp: Unwrap_def chain_measure_def split: option.splits elim!: unwrapper.elims)

definition Lines ::
  "Config \<Rightarrow> (Config \<Rightarrow> stack \<Rightarrow> string) \<Rightarrow> 'a error \<Rightarrow> bool \<Rightarrow> string list outcome" where
  "Lines opts stack_Format err stack = Lines_loop opts stack_Format err stack []"

section \<open>Values built by the package\<close>

text \<open>
  The error values a client can hold: nil, a foreign error whose \<open>Cause()\<close> and
  \<open>Unwrap()\<close> results are such values again, and what the constructors of the
  package return on such values. The node types are not exported, so a client has
  no other way to a node.
\<close>

inductive constructed :: "'a error \<Rightarrow> bool" where
  c_nil: "constructed nil"
| c_external:
    "pred_option constructed c \<Longrightarrow> pred_option constructed u \<Longrightarrow> constructed (external text c u)"
| c_New: "constructed (errorsApi_New e callers message)"
| c_Errorf: "constructed (errorsApi_Errorf e Sprintf callers format args)"
| c_WithStack: "constructed err \<Longrightarrow> constructed (errorsApi_WithStack e callers err)"
| c_Wrap: "constructed err \<Longrightarrow> constructed (errorsApi_Wrap e callers err message)"
| c_Wrapf:
    "constructed err \<Longrightarrow> constructed (errorsApi_Wrapf e Sprintf callers err format args)"
| c_WithMessage: "constructed err \<Longrightarrow> constructed (errorsApi_WithMessage e err message)"
| c_WithMessagef:
    "constructed err \<Longrightarrow> constructed (errorsApi_WithMessagef e Sprintf err format args)"
| c_WithDetails: "constructed err \<Longrightarrow> constructed (errorsApi_WithDetails e err details)"

text \<open>Every node inside a value that has a cause field holds a non-nil cause.\<close>

fun causes_present :: "'a error \<Rightarrow> bool" where
  "causes_present nil = True"
| "causes_present (fundamental msg st) = True"
| "causes_present (withStack cause msg st) = (cause \<noteq> nil \<and> causes_present cause)"
| "causes_present (withMessage cause msg) = (cause \<noteq> nil \<and> causes_present cause)"
| "causes_present (withDetails cause details) = (cause \<noteq> nil \<and> causes_present cause)"
| "causes_present (external text c u) =
     ((case c of None \<Rightarrow> True | Some x \<Rightarrow> causes_present x)
      \<and> (case u of None \<Rightarrow> True | Some x \<Rightarrow> causes_present x))"

section \<open>A host for the examples\<close>

text \<open>
  Modelled from the spec: the capture routine \<open>callers\<close>, whose file is not among
  the sources. Of the program counters of the run-time call stack, innermost first,
  it leaves out the first \<open>skip\<close>.
\<close>

definition capture :: "stack \<Rightarrow> int \<Rightarrow> stack" where
  "capture frames skip = drop (nat skip) frames"

text \<open>The decimal digits of a line number.\<close>

definition digit_char :: "nat \<Rightarrow> char" where
  "digit_char n = ''0123456789'' ! (n mod 10)"

function decimal :: "nat \<Rightarrow> string" where
  "decimal n = (if n < 10 then [digit_char n] else decimal (n div 10) @ [digit_char n])"
  by pat_completeness auto
termination
  by (relation "measure id") auto

text \<open>
  Modelled from the spec: the rendering of a frame, whose file is not among the
  sources, with the resolution of a program counter to its function, file and line
  as the parameter \<open>resolve\<close>. A frame line is \<open>functionName\<close>, \<open>FuncSep\<close>,
  \<open>file:line\<close>.
\<close>

definition frame_text :: "(nat \<Rightarrow> string \<times> string \<times> nat) \<Rightarrow> Config \<Rightarrow> nat \<Rightarrow> string" where
  "frame_text resolve opts pc =
     (case resolve pc of (fn, file, line) \<Rightarrow> fn @ FuncSep opts @ file @ '':'' @ decimal line)"

text \<open>
  Modelled from the spec: the rendering of a captured stack under \<open>%+v\<close>
  (\<open>stack.Format\<close>), whose file is not among the sources: one frame per line.
\<close>

fun stack_text :: "(nat \<Rightarrow> string \<times> string \<times> nat) \<Rightarrow> Config \<Rightarrow> stack \<Rightarrow> string" where
  "stack_text resolve opts [] = []"
| "stack_text resolve opts [pc] = frame_text resolve opts pc"
| "stack_text resolve opts (pc # pcs) =
     frame_text resolve opts pc @ [CHR 0x0A] @ stack_text resolve opts pcs"

text \<open>A binary without symbols: every program counter resolves to empty names and
  line 0.\<close>

definition no_symbols :: "nat \<Rightarrow> string \<times> string \<times> nat" where
  "no_symbols pc = ([], [], 0)"

text \<open>\<open>fmt.Sprintf\<close> on a format without a verb and without arguments returns the
  format; the examples call it on nothing else.\<close>

definition Sprintf_plain :: "string \<Rightarrow> 'a list \<Rightarrow> string" where
  "Sprintf_plain format args = format"

text \<open>\<open>%q\<close> of the host on a text of printable ASCII characters other than the
  quotation mark and the backslash writes the text between two quotation marks; the
  examples call it on nothing else.\<close>

definition Quote_plain :: "string \<Rightarrow> string" where
  "Quote_plain t = CHR 0x22 # t @ [CHR 0x22]"

section \<open>Helper facts\<close>

lemma Cause_no_causer: "causer err = None \<Longrightarrow> Cause err = err"
  by (subst Cause.simps) simp

lemma Cause_causer: "causer err = Some c \<Longrightarrow> Cause err = Cause c"
  by (subst Cause.simps) auto

text \<open>The loop of \<open>Cause\<close> ends at a value without the \<open>Cause()\<close> method (nil has
  none either).\<close>

lemma Cause_stops: "causer (Cause err) = None"
proof (induction err rule: Cause.induct)
  case (1 err)
  show ?case
  proof (cases "causer err")
    case None
    then show ?thesis by (simp add: Cause_no_causer)
  next
    case (Some c)
    have "err \<noteq> nil" using Some by auto
    with Some "1.IH"[of c] show ?thesis by (simp add: Cause_causer)
  qed
qed

lemma Lines_loop_step:
  "err \<noteq> nil \<Longrightarrow>
   Lines_loop opts sf err stack errors =
     (case (case ErrorLine opts sf err stack of
              Returns l \<Rightarrow> Returns l | Panics \<Rightarrow> Panics | NoMethod \<Rightarrow> Error err) of
        Returns line \<Rightarrow>
          Lines_loop opts sf (Unwrap err) stack
            (if length line > 0 then errors @ [line] else errors)
      | Panics \<Rightarrow> Panics
      | NoMethod \<Rightarrow> NoMethod)"
  by (subst Lines_loop.simps) simp

text \<open>Every non-nil value yields a line: a node through \<open>ErrorLine\<close>, a foreign error
  through \<open>Error()\<close>.\<close>

lemma line_of_node:
  "err \<noteq> nil \<Longrightarrow>
   \<exists>line. (case ErrorLine opts sf err stack of
              Returns l \<Rightarrow> Returns l | Panics \<Rightarrow> Panics | NoMethod \<Rightarrow> Error err) = Returns line"
  by (cases err) auto

lemma Lines_loop_no_empty:
  "[] \<notin> set errors \<Longrightarrow> \<exists>ls. Lines_loop opts sf err stack errors = Returns ls \<and> [] \<notin> set ls"
proof (induction opts sf err stack errors rule: Lines_loop.induct)
  case (1 opts sf err stack errors)
  show ?case
  proof (cases "err = nil")
    case True
    with "1.prems" show ?thesis by simp
  next
    case False
    from line_of_node[OF False, of opts sf stack] obtain line where
      l: "(case ErrorLine opts sf err stack of
              Returns l \<Rightarrow> Returns l | Panics \<Rightarrow> Panics | NoMethod \<Rightarrow> Error err) = Returns line"
      by blast
    have "[] \<notin> set (if length line > 0 then errors @ [line] else errors)"
      using "1.prems" by auto
    from "1.IH"[OF False l this] show ?thesis
      by (simp only: Lines_loop_step[OF False] l outcome.case)
  qed
qed

lemma constructed_causes_present: "constructed err \<Longrightarrow> causes_present err"
proof (induction rule: constructed.induct)
  case (c_external c u tx)
  then show ?case by (auto split: option.splits)
qed (auto simp: errorsApi_New_def errorsApi_Errorf_def errorsApi_WithStack_def errorsApi_Wrap_def
      errorsApi_Wrapf_def errorsApi_WithMessage_def errorsApi_WithMessagef_def
      errorsApi_WithDetails_def)

lemma causes_present_Error: "causes_present err \<Longrightarrow> err \<noteq> nil \<Longrightarrow> \<exists>t. Error err = Returns t"
  by (induction err) auto

section \<open>Nil in, nil out\<close>

text \<open>
  C1: each of \<open>WithStack\<close>, \<open>Wrap\<close>, \<open>Wrapf\<close>, \<open>WithMessage\<close>, \<open>WithMessagef\<close>
  and \<open>WithDetails\<close> returns nil for a nil cause, and for every other cause a node
  of its kind that holds this cause: a \<open>withStack\<close> with the message and the captured
  stack, a \<open>withMessage\<close> with the message, a \<open>withDetails\<close> with the values. So
  the result is nil exactly when the cause is. This holds for the methods of any
  \<open>errorsApi\<close> and for the package-level functions, which capture at the skip
  count 2.
\<close>

theorem wrap_family_nil_iff:
  "errorsApi_WithStack e callers nil = nil
   \<and> errorsApi_Wrap e callers nil message = nil
   \<and> errorsApi_Wrapf e Sprintf callers nil format args = nil
   \<and> errorsApi_WithMessage e nil message = nil
   \<and> errorsApi_WithMessagef e Sprintf nil format args = nil
   \<and> errorsApi_WithDetails e nil details = nil
   \<and> WithStack callers nil = nil
   \<and> Wrap callers nil message = nil
   \<and> Wrapf Sprintf callers nil format args = nil
   \<and> WithMessage nil message = nil
   \<and> WithMessagef Sprintf nil format args = nil
   \<and> WithDetails nil details = nil
   \<and> (err \<noteq> nil \<longrightarrow>
        errorsApi_WithStack e callers err = withStack err [] (callers (CallerSkip (cfg e)))
        \<and> errorsApi_Wrap e callers err message
            = withStack err message (callers (CallerSkip (cfg e)))
        \<and> errorsApi_Wrapf e Sprintf callers err format args
            = withStack err (Sprintf format args) (callers (CallerSkip (cfg e)))
        \<and> errorsApi_WithMessage e err message = withMessage err message
        \<and> errorsApi_WithMessagef e Sprintf err format args
            = withMessage err (Sprintf format args)
        \<and> errorsApi_WithDetails e err details = withDetails err details
        \<and> WithStack callers err = withStack err [] (callers 2)
        \<and> Wrap callers err message = withStack err message (callers 2)
        \<and> Wrapf Sprintf callers err format args
            = withStack err (Sprintf format args) (callers 2)
        \<and> WithMessage err message = withMessage err message
        \<and> WithMessagef Sprintf err format args = withMessage err (Sprintf format args)
        \<and> WithDetails err details = withDetails err details)
   \<and> (errorsApi_WithStack e callers err = nil) = (err = nil)
   \<and> (errorsApi_Wrap e callers err message = nil) = (err = nil)
   \<and> (errorsApi_Wrapf e Sprintf callers err format args = nil) = (err = nil)
   \<and> (errorsApi_WithMessage e err message = nil) = (err = nil)
   \<and> (errorsApi_WithMessagef e Sprintf err format args = nil) = (err = nil)
   \<and> (errorsApi_WithDetails e err details = nil) = (err = nil)
   \<and> (WithStack callers err = nil) = (err = nil)
   \<and> (Wrap callers err message = nil) = (err = nil)
   \<and> (Wrapf Sprintf callers err format args = nil) = (err = nil)
   \<and> (WithMessage err message = nil) = (err = nil)
   \<and> (WithMessagef Sprintf err format args = nil) = (err = nil)
   \<and> (WithDetails err details = nil) = (err = nil)"
  by (simp add: errorsApi_WithStack_def errorsApi_Wrap_def errorsApi_Wrapf_def
      errorsApi_WithMessage_def errorsApi_WithMessagef_def errorsApi_WithDetails_def
      WithStack_def Wrap_def Wrapf_def WithMessage_def WithMessagef_def WithDetails_def
      globalErrorsApi_def NewErrorsApi_def)

theorem wrap_family_nil_iff_witness:
  "Wrap (capture [9, 8, 7]) (nil :: nat error) ''m'' = nil
   \<and> external ''EOF'' None None \<noteq> (nil :: nat error)
   \<and> Wrap (capture [9, 8, 7]) (external ''EOF'' None None :: nat error) ''m''
       = withStack (external ''EOF'' None None) ''m'' [7]
   \<and> WithMessage (external ''EOF'' None None :: nat error) ''m''
       = withMessage (external ''EOF'' None None) ''m''
   \<and> WithDetails (nil :: nat error) [1] = nil
   \<and> WithDetails (external ''EOF'' None None :: nat error) [1]
       = withDetails (external ''EOF'' None None) [1]"
proof -
  have ne: "external ''EOF'' None None \<noteq> (nil :: nat error)"
    by simp
  note w = wrap_family_nil_iff [where err = "external ''EOF'' None None :: nat error"
      and callers = "capture [9, 8, 7]" and message = "''m''" and details = "[1]"
      and e = globalErrorsApi and Sprintf = "Sprintf_plain :: string \<Rightarrow> nat list \<Rightarrow> string"
      and format = "''m''" and args = "[]"]
  from w have n1: "Wrap (capture [9, 8, 7]) (nil :: nat error) ''m'' = nil"
    by blast
  from w have n2: "WithDetails (nil :: nat error) [1] = nil"
    by blast
  from w ne have s1: "Wrap (capture [9, 8, 7]) (external ''EOF'' None None :: nat error) ''m''
       = withStack (external ''EOF'' None None) ''m'' (capture [9, 8, 7] 2)"
    by blast
  from w ne have s2: "WithMessage (external ''EOF'' None None :: nat error) ''m''
       = withMessage (external ''EOF'' None None) ''m''"
    by blast
  from w ne have s3: "WithDetails (external ''EOF'' None None :: nat error) [1]
       = withDetails (external ''EOF'' None None) [1]"
    by blast
  have "capture [9, 8, 7] 2 = [7]"
    by (simp add: capture_def)
  with ne n1 n2 s1 s2 s3 show ?thesis
    by simp
qed

section \<open>Root cause\<close>

text \<open>
  C2: \<open>Cause\<close> is idempotent: for every error value, nil and foreign errors
  included, \<open>Cause (Cause err) = Cause err\<close>.
\<close>

theorem Cause_idempotent: "Cause (Cause err) = Cause err"
  by (rule Cause_no_causer) (rule Cause_stops)

theorem Cause_idempotent_witness:
  "Cause (Cause (withMessage (external ''EOF'' None None) ''read'' :: nat error))
     = external ''EOF'' None None
   \<and> Cause (Cause (nil :: nat error)) = nil"
  using Cause_idempotent [of "withMessage (external ''EOF'' None None) ''read'' :: nat error"]
    Cause_idempotent [of "nil :: nat error"]
  by (simp add: Cause_causer Cause_no_causer)

section \<open>Short text of a wrapped error\<close>

text \<open>
  C3: for a non-nil cause whose \<open>Error()\<close> text \<open>t\<close> is not empty and a non-empty
  message \<open>m\<close>, the \<open>Error()\<close> text of \<open>Wrap(cause, m)\<close> is \<open>m\<close>, then \<open>: \<close>,
  then \<open>t\<close>.
\<close>

theorem Wrap_short_text:
  assumes "err \<noteq> nil" and "Error err = Returns t" and "t \<noteq> []" and "m \<noteq> []"
  shows "Error (errorsApi_Wrap e callers err m) = Returns (m @ '': '' @ t)
         \<and> Error (Wrap callers err m) = Returns (m @ '': '' @ t)"
  using assms by (simp add: errorsApi_Wrap_def Wrap_def)

theorem Wrap_short_text_witness:
  "(New (capture []) ''foo'' :: nat error) \<noteq> nil
   \<and> Error (New (capture []) ''foo'' :: nat error) = Returns ''foo''
   \<and> ''foo'' \<noteq> [] \<and> ''m'' \<noteq> []
   \<and> Error (Wrap (capture []) (New (capture []) ''foo'' :: nat error) ''m'') = Returns ''m: foo''"
proof -
  have h1: "(New (capture []) ''foo'' :: nat error) \<noteq> nil"
    by (simp add: New_def errorsApi_New_def)
  have h2: "Error (New (capture []) ''foo'' :: nat error) = Returns ''foo''"
    by (simp add: New_def errorsApi_New_def)
  have h3: "''foo'' \<noteq> []" and h4: "''m'' \<noteq> []"
    by simp_all
  from Wrap_short_text [OF h1 h2 h3 h4, of globalErrorsApi "capture []"] h1 h2
  show ?thesis by simp
qed

section \<open>Lines\<close>

text \<open>
  C4: \<open>Lines(WithMessage(WithStack(New("foo")), "bar"), false)\<close> returns
  \<open>["bar", "foo"]\<close>, whatever the configuration and the captured stacks are. Without
  the stack the \<open>WithStack\<close> node in the middle contributes the empty line, and no
  result of \<open>Lines\<close> holds an empty line; \<open>Lines\<close> returns on every value.
\<close>

theorem Lines_scenario:
  "Lines opts sf (WithMessage (WithStack c2 (New c1 ''foo'')) ''bar'') False
     = Returns [''bar'', ''foo'']
   \<and> ErrorLine opts sf (WithStack c2 (New c1 ''foo'')) False = Returns []
   \<and> (\<exists>ls. Lines opts sf err stack = Returns ls \<and> [] \<notin> set ls)"
proof (intro conjI)
  show "Lines opts sf (WithMessage (WithStack c2 (New c1 ''foo'')) ''bar'') False
          = Returns [''bar'', ''foo'']"
    by (simp add: Lines_def WithMessage_def WithStack_def New_def errorsApi_WithMessage_def
        errorsApi_WithStack_def errorsApi_New_def Unwrap_def)
  show "ErrorLine opts sf (WithStack c2 (New c1 ''foo'')) False = Returns []"
    by (simp add: WithStack_def New_def errorsApi_WithStack_def errorsApi_New_def)
  show "\<exists>ls. Lines opts sf err stack = Returns ls \<and> [] \<notin> set ls"
    unfolding Lines_def by (rule Lines_loop_no_empty) simp
qed

theorem Lines_scenario_witness:
  "Lines globalOptions (stack_text no_symbols)
     (WithMessage (WithStack (capture [3, 2, 1, 0]) (New (capture [3, 2, 1, 0]) ''foo'' :: nat error))
        ''bar'') False
     = Returns [''bar'', ''foo'']"
  by (rule conjunct1 [OF Lines_scenario [where err = "nil :: nat error" and stack = False]])

section \<open>Details\<close>

text \<open>
  C5: \<open>Details(err)\<close> returns the stored values and true when \<open>err\<close> itself is a
  \<open>withDetails\<close> node, and the nil slice and false on every other value, without
  failing. It does not search the chain: on a node that wraps a \<open>withDetails\<close> node
  the inner values are not found, and an outer \<open>withDetails\<close> node returns its own
  values.
\<close>

theorem Details_exact:
  "errorsApi_Details e (withDetails cause details) = (details, True)
   \<and> ((\<forall>c ds. err \<noteq> withDetails c ds) \<longrightarrow> errorsApi_Details e err = ([], False))
   \<and> errorsApi_Details e (withMessage (withDetails cause details) m) = ([], False)
   \<and> errorsApi_Details e (withStack (withDetails cause details) m st) = ([], False)
   \<and> errorsApi_Details e (withDetails (withDetails cause details) []) = ([], True)
   \<and> Details err = errorsApi_Details e err"
  by (cases err) (auto simp: errorsApi_Details_def Details_def)

theorem Details_exact_witness:
  "Details (WithDetails (New (capture []) ''foo'') [1, 2 :: nat]) = ([1, 2], True)
   \<and> Details (WithMessage (WithDetails (New (capture []) ''foo'') [1, 2 :: nat]) ''bar'')
       = ([], False)
   \<and> Details (New (capture []) ''foo'' :: nat error) = ([], False)
   \<and> Details (nil :: nat error) = ([], False)"
  using Details_exact [where e = globalErrorsApi and err = "nil :: nat error"]
    Details_exact [where e = globalErrorsApi and err = "New (capture []) ''foo'' :: nat error"]
  by (simp add: Details_def errorsApi_Details_def WithDetails_def errorsApi_WithDetails_def
      WithMessage_def errorsApi_WithMessage_def New_def errorsApi_New_def)

section \<open>The joiner of the short text\<close>

text \<open>
  C6, as the code has it: \<open>Error()\<close> of a \<open>fundamental\<close> is its message; of a
  \<open>withMessage\<close> or \<open>withStack\<close> without a cause it is the message; with a cause
  and an empty message it is the text of the cause, with no joiner; with a cause and a
  non-empty message it is the message, the joiner \<open>: \<close> and the text of the cause,
  also when that text is empty. \<open>Error()\<close> of a \<open>withDetails\<close> is the text of its
  cause.
\<close>

theorem Error_join:
  "Error (fundamental msg st) = Returns msg
   \<and> Error (withMessage nil msg) = Returns msg
   \<and> Error (withStack nil msg st) = Returns msg
   \<and> (cause \<noteq> nil \<longrightarrow> Error cause = Returns t \<longrightarrow>
        Error (withMessage cause msg) = Returns (if msg = [] then t else msg @ '': '' @ t)
        \<and> Error (withStack cause msg st) = Returns (if msg = [] then t else msg @ '': '' @ t)
        \<and> Error (withDetails cause details) = Returns t)"
  by simp

theorem Error_join_witness:
  "Error (withStack (fundamental ''foo'' []) [] [] :: nat error) = Returns ''foo''
   \<and> Error (withMessage (fundamental ''foo'' []) ''bar'' :: nat error) = Returns ''bar: foo''
   \<and> Error (withDetails (fundamental ''foo'' []) [7] :: nat error) = Returns ''foo''"
  using Error_join [where cause = "fundamental ''foo'' [] :: nat error" and t = "''foo''"
      and msg = "[]" and st = "[]" and details = "[7]"]
    Error_join [where cause = "fundamental ''foo'' [] :: nat error" and t = "''foo''"
      and msg = "''bar''" and st = "[]" and details = "[7]"]
  by simp

text \<open>
  The claim as stated fails where the text of the cause is empty and the message is
  not: \<open>Wrap(New(""), "bar")\<close> has the text \<open>bar: \<close>, with the joiner at its end,
  and not \<open>bar\<close>.
\<close>

theorem Error_join_counterexample:
  "Error (New (capture []) [] :: nat error) = Returns []
   \<and> Error (Wrap (capture []) (New (capture []) [] :: nat error) ''bar'') = Returns ''bar: ''
   \<and> Error (Wrap (capture []) (New (capture []) [] :: nat error) ''bar'') \<noteq> Returns ''bar''"
  by (simp add: Wrap_def New_def errorsApi_Wrap_def errorsApi_New_def)

section \<open>The verbs of Format\<close>

text \<open>
  C7: under the verb \<open>q\<close> every node of the package should write its short text
  between quotation marks. \<open>fundamental.Format\<close> and \<open>withStack.Format\<close> do, in a
  case \<open>q\<close> of their own that hands the text to the host's \<open>%q\<close>. The code of
  \<open>withMessage.Format\<close> and \<open>withDetails.Format\<close> does not: it takes \<open>q\<close> in the
  case of \<open>s\<close>, so \<open>WithMessage(New("foo"), "bar")\<close> under \<open>%q\<close> is \<open>bar: foo\<close>
  and \<open>WithDetails(New("foo"))\<close> is \<open>foo\<close>, as under \<open>%s\<close> and whatever the host's
  quoting is, while \<open>Wrap(New("foo"), "bar")\<close> and \<open>New("foo")\<close> are quoted.
\<close>

theorem Format_q_unquoted:
  "Format opts Sprintf Quote sf (WithMessage (New c1 ''foo'') ''bar'') plusFlag (of_char CHR ''q'')
     = Returns ''bar: foo''
   \<and> Format opts Sprintf Quote sf (WithMessage (New c1 ''foo'') ''bar'') plusFlag (of_char CHR ''s'')
     = Returns ''bar: foo''
   \<and> Format opts Sprintf Quote sf (WithDetails (New c1 ''foo'') details) plusFlag (of_char CHR ''q'')
     = Returns ''foo''
   \<and> Format opts Sprintf Quote sf (Wrap c2 (New c1 ''foo'') ''bar'') plusFlag (of_char CHR ''q'')
     = Returns (Quote ''bar: foo'')
   \<and> Format opts Sprintf Quote sf (New c1 ''foo'') plusFlag (of_char CHR ''q'')
     = Returns (Quote ''foo'')"
  by (simp add: WithMessage_def WithDetails_def Wrap_def New_def errorsApi_WithMessage_def
      errorsApi_WithDetails_def errorsApi_Wrap_def errorsApi_New_def)

theorem Format_q_unquoted_witness:
  "Format globalOptions Sprintf_plain Quote_plain (stack_text no_symbols)
     (WithMessage (New (capture []) ''foo'' :: nat error) ''bar'') False (of_char CHR ''q'')
     = Returns ''bar: foo''
   \<and> Format globalOptions Sprintf_plain Quote_plain (stack_text no_symbols)
     (Wrap (capture []) (New (capture []) ''foo'' :: nat error) ''bar'') False (of_char CHR ''q'')
     = Returns (CHR 0x22 # ''bar: foo'' @ [CHR 0x22])"
  using Format_q_unquoted [where opts = globalOptions and Sprintf = Sprintf_plain
      and Quote = Quote_plain and sf = "stack_text no_symbols" and ?c1.0 = "capture []"
      and ?c2.0 = "capture []" and plusFlag = False and details = "[] :: nat list"]
  by (simp add: Quote_plain_def)

text \<open>
  C8, as the code has it: the \<open>switch\<close> of each \<open>Format\<close> has no default case, so
  under a verb other than \<open>s\<close>, \<open>v\<close> and \<open>q\<close> every node writes nothing, with or
  without the flag \<open>+\<close> and whatever its fields are. It does not panic.
\<close>

theorem Format_other_verb:
  assumes "verb \<noteq> of_char CHR ''s''" and "verb \<noteq> of_char CHR ''v''"
    and "verb \<noteq> of_char CHR ''q''"
  shows "Format opts Sprintf Quote sf (fundamental msg st) plusFlag verb = Returns []
   \<and> Format opts Sprintf Quote sf (withStack cause msg st) plusFlag verb = Returns []
   \<and> Format opts Sprintf Quote sf (withMessage cause msg) plusFlag verb = Returns []
   \<and> Format opts Sprintf Quote sf (withDetails cause details) plusFlag verb = Returns []"
  using assms by simp

theorem Format_other_verb_witness:
  "(of_char CHR ''d'' :: rune) \<noteq> of_char CHR ''s''
   \<and> (of_char CHR ''d'' :: rune) \<noteq> of_char CHR ''v''
   \<and> (of_char CHR ''d'' :: rune) \<noteq> of_char CHR ''q''
   \<and> Format globalOptions Sprintf_plain Quote_plain (stack_text no_symbols)
        (withStack (fundamental ''foo'' []) ''bar'' [] :: nat error) True (of_char CHR ''d'')
        = Returns []"
proof -
  have h1: "(of_char CHR ''d'' :: rune) \<noteq> of_char CHR ''s''"
    and h2: "(of_char CHR ''d'' :: rune) \<noteq> of_char CHR ''v''"
    and h3: "(of_char CHR ''d'' :: rune) \<noteq> of_char CHR ''q''"
    by simp_all
  from Format_other_verb [OF h1 h2 h3, where opts = globalOptions and Sprintf = Sprintf_plain
      and Quote = Quote_plain
      and sf = "stack_text no_symbols" and cause = "fundamental ''foo'' [] :: nat error"
      and msg = "''bar''" and st = "[]" and plusFlag = True and details = "[]"]
  have "Format globalOptions Sprintf_plain Quote_plain (stack_text no_symbols)
        (withStack (fundamental ''foo'' []) ''bar'' [] :: nat error) True (of_char CHR ''d'')
        = Returns []"
    by blast
  with h1 h2 h3 show ?thesis by blast
qed

text \<open>
  The claim as stated fails on every node with a non-empty short text: \<open>New("foo")\<close>
  under \<open>%d\<close> writes the empty text and not \<open>foo\<close>.
\<close>

theorem Format_other_verb_counterexample:
  "Error (New (capture []) ''foo'' :: nat error) = Returns ''foo''
   \<and> Format globalOptions Sprintf_plain Quote_plain (stack_text no_symbols)
        (New (capture []) ''foo'' :: nat error) False (of_char CHR ''d'') = Returns []
   \<and> Format globalOptions Sprintf_plain Quote_plain (stack_text no_symbols)
        (New (capture []) ''foo'' :: nat error) False (of_char CHR ''d'') \<noteq> Returns ''foo''"
  by (simp add: New_def errorsApi_New_def)

section \<open>Formatted constructors\<close>

text \<open>
  C9: a formatted constructor builds the node of its plain counterpart on the
  formatted string: \<open>Errorf\<close> that of \<open>New\<close>, \<open>Wrapf\<close> that of \<open>Wrap\<close> and
  \<open>WithMessagef\<close> that of \<open>WithMessage\<close>, with the stack captured by the same
  routine at the same skip count \<open>CallerSkip\<close>.
\<close>

theorem formatted_variants:
  "errorsApi_Errorf e Sprintf callers format args = errorsApi_New e callers (Sprintf format args)
   \<and> errorsApi_Wrapf e Sprintf callers err format args
       = errorsApi_Wrap e callers err (Sprintf format args)
   \<and> errorsApi_WithMessagef e Sprintf err format args
       = errorsApi_WithMessage e err (Sprintf format args)
   \<and> Errorf Sprintf callers format args = New callers (Sprintf format args)
   \<and> Wrapf Sprintf callers err format args = Wrap callers err (Sprintf format args)
   \<and> WithMessagef Sprintf err format args = WithMessage err (Sprintf format args)"
  by (simp add: errorsApi_Errorf_def errorsApi_New_def errorsApi_Wrapf_def errorsApi_Wrap_def
      errorsApi_WithMessagef_def errorsApi_WithMessage_def Errorf_def New_def Wrapf_def Wrap_def
      WithMessagef_def WithMessage_def)

theorem formatted_variants_witness:
  "Wrapf Sprintf_plain (capture [5, 4, 3]) (New (capture [5, 4, 3]) ''foo'' :: nat error) ''bar'' []
     = withStack (fundamental ''foo'' [3]) ''bar'' [3]
   \<and> Wrap (capture [5, 4, 3]) (New (capture [5, 4, 3]) ''foo'' :: nat error) ''bar''
     = withStack (fundamental ''foo'' [3]) ''bar'' [3]"
  using formatted_variants [where Sprintf = "Sprintf_plain :: string \<Rightarrow> nat list \<Rightarrow> string"
      and callers = "capture [5, 4, 3]" and err = "New (capture [5, 4, 3]) ''foo''"
      and format = "''bar''" and args = "[]"]
  by (simp add: Wrap_def errorsApi_Wrap_def New_def errorsApi_New_def capture_def
      globalErrorsApi_def NewErrorsApi_def Sprintf_plain_def)

section \<open>No node without its cause\<close>

text \<open>
  C10: in a value built by the package every node with a cause field holds a non-nil
  cause. So \<open>Error()\<close> returns on every such value but nil, and a \<open>withDetails\<close> node
  among them has a non-nil cause, whose \<open>Error()\<close> it returns.
\<close>

theorem constructed_cause_not_nil:
  assumes "constructed err"
  shows "causes_present err
    \<and> (err \<noteq> nil \<longrightarrow> (\<exists>t. Error err = Returns t))
    \<and> (\<forall>cause details. err = withDetails cause details \<longrightarrow>
          cause \<noteq> nil \<and> (\<exists>t. Error cause = Returns t \<and> Error err = Returns t))"
proof -
  have cp: "causes_present err" using assms by (rule constructed_causes_present)
  show ?thesis
  proof (intro conjI allI impI)
    show "causes_present err" by (rule cp)
  next
    assume "err \<noteq> nil"
    with cp show "\<exists>t. Error err = Returns t" by (rule causes_present_Error)
  next
    fix cause details assume e: "err = withDetails cause details"
    with cp show "cause \<noteq> nil" by simp
  next
    fix cause :: "'a error" and details assume e: "err = withDetails cause details"
    with cp have "causes_present cause" and "cause \<noteq> nil" by simp_all
    from causes_present_Error[OF this] e
    show "\<exists>t. Error cause = Returns t \<and> Error err = Returns t" by auto
  qed
qed

theorem constructed_cause_not_nil_witness:
  "constructed (errorsApi_WithDetails globalErrorsApi
      (errorsApi_New globalErrorsApi (capture []) ''foo'') [1 :: nat])
   \<and> causes_present (errorsApi_WithDetails globalErrorsApi
      (errorsApi_New globalErrorsApi (capture []) ''foo'') [1 :: nat])
   \<and> Error (errorsApi_WithDetails globalErrorsApi
      (errorsApi_New globalErrorsApi (capture []) ''foo'') [1 :: nat]) = Returns ''foo''"
proof -
  have h: "constructed (errorsApi_WithDetails globalErrorsApi
      (errorsApi_New globalErrorsApi (capture []) ''foo'') [1 :: nat])"
    by (intro c_WithDetails c_New)
  from constructed_cause_not_nil [OF h] h show ?thesis
    by (simp add: errorsApi_WithDetails_def errorsApi_New_def)
qed

end
